theory Spec2Isabelle
  imports Main "HOL-Library.Word"
begin

section \<open>JavaScript values\<close>

text \<open>
  A JavaScript string is a sequence of 16-bit code units. Literals of the source are
  written \<open>js ''...''\<close>.
\<close>

type_synonym code_unit = "16 word"

type_synonym js_string = "code_unit list"

definition js :: "string \<Rightarrow> js_string" where
  "js s = map of_char s"

text \<open>
  \<open>String.prototype.trim\<close> strips the code units of the ECMAScript productions
  WhiteSpace (TAB, VT, FF, SP, NBSP, ZWNBSP and the Unicode space separators) and
  LineTerminator (LF, CR, LS, PS) from both ends.
\<close>

definition isWhiteSpace :: "code_unit \<Rightarrow> bool" where
  "isWhiteSpace c \<longleftrightarrow>
     c = 0x9 \<or> c = 0xB \<or> c = 0xC \<or> c = 0x20 \<or> c = 0xA0 \<or> c = 0xFEFF \<or>
     c = 0x1680 \<or> (0x2000 \<le> c \<and> c \<le> 0x200A) \<or> c = 0x202F \<or> c = 0x205F \<or> c = 0x3000"

definition isLineTerminator :: "code_unit \<Rightarrow> bool" where
  "isLineTerminator c \<longleftrightarrow> c = 0xA \<or> c = 0xD \<or> c = 0x2028 \<or> c = 0x2029"

definition strippable :: "code_unit \<Rightarrow> bool" where
  "strippable c \<longleftrightarrow> isWhiteSpace c \<or> isLineTerminator c"

definition trim :: "js_string \<Rightarrow> js_string" where
  "trim s = rev (dropWhile strippable (rev (dropWhile strippable s)))"

text \<open>
  \<open>s.split(",")\<close>: the pieces between the commas, in order; a string without a comma
  (the empty string too) gives one piece.
\<close>

definition comma :: code_unit where
  "comma = 0x2C"

fun split_comma :: "js_string \<Rightarrow> js_string list" where
  "split_comma [] = [[]]"
| "split_comma (c # cs) =
     (if c = comma then [] # split_comma cs
      else (case split_comma cs of
              [] \<Rightarrow> [[c]]
            | p # ps \<Rightarrow> (c # p) # ps))"

text \<open>\<open>xs.join(", ")\<close>.\<close>

fun join_comma_space :: "js_string list \<Rightarrow> js_string" where
  "join_comma_space [] = []"
| "join_comma_space [x] = x"
| "join_comma_space (x # y # ys) = x @ js '', '' @ join_comma_space (y # ys)"

datatype js_error = TypeError | SyntaxError | YAMLException

text \<open>The outcome of awaiting a promise of the platform (storage, file system, share).\<close>

datatype io = Resolves | Rejects

section \<open>Data model\<close>

text \<open>
  The \<open>timestamp\<close> of an entry is the text \<open>new Date().toISOString()\<close>. The model keeps
  the time value that text renders (milliseconds since the epoch): the rendering is
  fixed-width and injective for the years 0 to 9999, and no function of the source reads
  inside it except to display it.

  The source guards every read of \<open>comments\<close> with a test for its absence, so the field
  is optional: \<open>None\<close> is an entry read back without the field.
\<close>

type_synonym instant = int

record log_entry =
  activity :: js_string
  timestamp :: instant
  comments :: "js_string list option"

text \<open>
  The text kept under \<open>LOGS_KEY\<close>, up to what \<open>JSON.parse\<close> makes of it: \<open>Json v\<close> is
  a text that parses to the collection \<open>v\<close> (what \<open>JSON.stringify v\<close> writes),
  \<open>Unparsable\<close> a text on which \<open>JSON.parse\<close> throws. Texts that parse to a value
  that is no array of entries are outside this type.
\<close>

datatype stored_text = Json "log_entry list" | Unparsable

definition JSON_stringify :: "log_entry list \<Rightarrow> stored_text" where
  "JSON_stringify v = Json v"

fun JSON_parse :: "stored_text \<Rightarrow> js_error + log_entry list" where
  "JSON_parse (Json v) = Inr v"
| "JSON_parse Unparsable = Inl SyntaxError"

text \<open>What \<open>yaml.load\<close> can return.\<close>

datatype yaml =
    YUndefined
  | YNull
  | YBool bool
  | YNum int
  | YStr js_string
  | YSeq "yaml list"
  | YMap "(js_string \<times> yaml) list"

definition DEFAULT_CONFIG :: yaml where
  "DEFAULT_CONFIG =
     YMap [(js ''activities'', YSeq [YStr (js ''Work''), YStr (js ''Break''), YStr (js ''Exercise'')])]"

definition DEFAULT_THEME :: js_string where
  "DEFAULT_THEME = js ''light''"

text \<open>
  The state of the application: the three items of AsyncStorage, what was written to
  the console and shown in alerts, the payloads handed to the export sink, and the
  React state of \<open>App\<close>, \<open>HomeScreen\<close>, \<open>LogsScreen\<close> and \<open>SettingsScreen\<close>.
  \<open>screen_logs\<close> is the \<open>logs\<close> state of \<open>LogsScreen\<close>.
\<close>

record state =
  logs_item :: "stored_text option"
  config_item :: "js_string option"
  theme_item :: "js_string option"
  console :: "string list"
  alerts :: "(string \<times> string) list"
  delivered :: "log_entry list list"
  config :: yaml
  theme :: js_string
  reloadFlag :: bool
  logs :: "log_entry list"
  commentText :: js_string
  commentModalVisible :: bool
  screen_logs :: "log_entry list"
  editModalVisible :: bool
  currentEditingIndex :: "int option"
  editedActivity :: js_string
  editedComments :: js_string
  yamlText :: js_string
  selectedTheme :: js_string

text \<open>The initial React state over a given content of the storage.\<close>

definition App_init :: "stored_text option \<Rightarrow> js_string option \<Rightarrow> js_string option \<Rightarrow> state" where
  "App_init li ci ti =
     \<lparr> logs_item = li, config_item = ci, theme_item = ti,
       console = [], alerts = [], delivered = [],
       config = DEFAULT_CONFIG, theme = DEFAULT_THEME, reloadFlag = False,
       logs = [], commentText = [], commentModalVisible = False,
       screen_logs = [], editModalVisible = False, currentEditingIndex = None,
       editedActivity = [], editedComments = [],
       yamlText = [], selectedTheme = DEFAULT_THEME \<rparr>"

definition console_error :: "string \<Rightarrow> state \<Rightarrow> state" where
  "console_error msg s = s\<lparr>console := console s @ [msg]\<rparr>"

definition Alert_alert :: "string \<Rightarrow> string \<Rightarrow> state \<Rightarrow> state" where
  "Alert_alert title msg s = s\<lparr>alerts := alerts s @ [(title, msg)]\<rparr>"

section \<open>Logging helpers\<close>

text \<open>
  \<open>loadLogsFromStorage\<close>: the first argument is the outcome of \<open>AsyncStorage.getItem\<close>.
  A rejected read and a text that does not parse both end in the \<open>catch\<close>.
\<close>

definition loadLogsFromStorage :: "io \<Rightarrow> state \<Rightarrow> log_entry list \<times> state" where
  "loadLogsFromStorage r s =
     (case r of
        Rejects \<Rightarrow> ([], console_error ''Error reading logs:'' s)
      | Resolves \<Rightarrow>
          (case logs_item s of
             None \<Rightarrow> ([], s)
           | Some jsonValue \<Rightarrow>
               (case JSON_parse jsonValue of
                  Inl e \<Rightarrow> ([], console_error ''Error reading logs:'' s)
                | Inr v \<Rightarrow> (v, s))))"

text \<open>
  \<open>saveLogsToStorage\<close>: the first argument is the outcome of \<open>AsyncStorage.setItem\<close>.
  A rejected write is caught and logged; nothing is returned to the caller.
\<close>

definition saveLogsToStorage :: "io \<Rightarrow> log_entry list \<Rightarrow> state \<Rightarrow> state" where
  "saveLogsToStorage w ls s =
     (case w of
        Resolves \<Rightarrow> s\<lparr>logs_item := Some (JSON_stringify ls)\<rparr>
      | Rejects \<Rightarrow> console_error ''Error saving logs:'' s)"

section \<open>Home screen\<close>

text \<open>The effect of \<open>HomeScreen\<close> that runs on mount and when \<open>reloadFlag\<close> changes.\<close>

definition HomeScreen_reload :: "io \<Rightarrow> state \<Rightarrow> state" where
  "HomeScreen_reload r s =
     (case loadLogsFromStorage r s of (loadedLogs, s') \<Rightarrow> s'\<lparr>logs := loadedLogs\<rparr>)"

text \<open>
  \<open>recordActivity\<close>: \<open>w\<close> is the outcome of the write, \<open>now\<close> the reading of the clock.
\<close>

definition recordActivity :: "io \<Rightarrow> instant \<Rightarrow> js_string \<Rightarrow> state \<Rightarrow> state" where
  "recordActivity w now act s =
     (let newEntry = \<lparr> activity = act, timestamp = now, comments = Some [] \<rparr>;
          updatedLogs = logs s @ [newEntry]
      in (saveLogsToStorage w updatedLogs s)\<lparr>logs := updatedLogs\<rparr>)"

text \<open>
  \<open>addComment\<close> appends \<open>commentText\<close> to the comments of the last entry. The source
  pushes onto the array of the entry object, which the copied list shares with the old
  one; the old list is replaced by \<open>setLogs\<close> in every branch that reaches the push.
  The variant with inline editing differs in the title of the alert only ("No logs").
\<close>

definition addComment :: "io \<Rightarrow> state \<Rightarrow> state" where
  "addComment w s =
     (if length (logs s) = 0
      then Alert_alert ''No logs available'' ''Please log an activity first.'' s
      else
        let lastIndex = length (logs s) - 1;
            e = logs s ! lastIndex;
            cs = (case comments e of None \<Rightarrow> [] | Some xs \<Rightarrow> xs);
            updatedLogs = (logs s)[lastIndex := e\<lparr>comments := Some (cs @ [commentText s])\<rparr>]
        in (saveLogsToStorage w updatedLogs s)
             \<lparr>logs := updatedLogs, commentText := [], commentModalVisible := False\<rparr>)"



text \<open>
  A run of \<open>recordActivity\<close> calls that complete one after another: each tap comes
  after the previous call has settled and the screen has rendered its list.
\<close>

fun recordActivities :: "(io \<times> instant \<times> js_string) list \<Rightarrow> state \<Rightarrow> state" where
  "recordActivities [] s = s"
| "recordActivities ((w, now, act) # calls) s = recordActivities calls (recordActivity w now act s)"

section \<open>Logs screen with inline editing\<close>

definition LogsScreen_focus :: "io \<Rightarrow> state \<Rightarrow> state" where
  "LogsScreen_focus r s =
     (case loadLogsFromStorage r s of (loadedLogs, s') \<Rightarrow> s'\<lparr>screen_logs := loadedLogs\<rparr>)"

text \<open>The data of the list: \<open>[...logs].reverse()\<close>, most recent first.\<close>

definition displayed :: "state \<Rightarrow> log_entry list" where
  "displayed s = rev (screen_logs s)"

definition openEditModal :: "int \<Rightarrow> log_entry \<Rightarrow> state \<Rightarrow> state" where
  "openEditModal displayedIndex item s =
     (let originalIndex = int (length (screen_logs s)) - 1 - displayedIndex
      in s\<lparr>currentEditingIndex := Some originalIndex,
            editedActivity := activity item,
            editedComments := (case comments item of None \<Rightarrow> [] | Some cs \<Rightarrow> join_comma_space cs),
            editModalVisible := True\<rparr>)"

text \<open>
  \<open>saveEditedLog\<close>: nothing happens without an index; an index with no entry makes
  the assignment to \<open>updatedLogs[currentEditingIndex].activity\<close> throw.
\<close>

definition edited_comments :: "js_string \<Rightarrow> js_string list" where
  "edited_comments raw = filter (\<lambda>c. c \<noteq> []) (map trim (split_comma raw))"

definition saveEditedLog :: "io \<Rightarrow> state \<Rightarrow> js_error + state" where
  "saveEditedLog w s =
     (case currentEditingIndex s of
        None \<Rightarrow> Inr s
      | Some i \<Rightarrow>
          if 0 \<le> i \<and> i < int (length (screen_logs s))
          then
            let e = screen_logs s ! nat i;
                updatedLogs = (screen_logs s)
                  [nat i := e\<lparr>activity := editedActivity s,
                               comments := Some (edited_comments (editedComments s))\<rparr>]
            in Inr ((saveLogsToStorage w updatedLogs s)
                      \<lparr>screen_logs := updatedLogs, editModalVisible := False\<rparr>)
          else Inl TypeError)"

section \<open>Export\<close>

datatype platform = Web | Android | IOS

datatype answer = No | Yes

text \<open>
  What the surroundings do during one export: the platform, the outcome of the first
  read of the storage, of the delivery to the sink (the download on the web, writing
  the file and sharing it elsewhere), of \<open>AsyncStorage.removeItem\<close>, the answer of
  the user to the dialog of the confirming variant, and the outcome of the read that
  refreshes the home screen.
\<close>

record export_run =
  os :: platform
  first_read :: io
  deliver :: io
  removal :: io
  confirm :: answer
  reload :: io

text \<open>
  \<open>refreshHome\<close> toggles \<open>reloadFlag\<close>, on which the effect of the home screen loads
  the logs again.
\<close>

definition refreshHome :: "io \<Rightarrow> state \<Rightarrow> state" where
  "refreshHome r s = HomeScreen_reload r (s\<lparr>reloadFlag := \<not> reloadFlag s\<rparr>)"

definition export_failed :: "state \<Rightarrow> state" where
  "export_failed s =
     Alert_alert ''Export Error'' ''Failed to export logs.'' (console_error ''Error exporting logs:'' s)"

text \<open>The variant that clears as soon as the sink has taken the payload.\<close>

definition exportLogsFunction :: "export_run \<Rightarrow> log_entry list \<Rightarrow> state \<Rightarrow> state" where
  "exportLogsFunction e ls s =
     (case deliver e of
        Rejects \<Rightarrow> export_failed s
      | Resolves \<Rightarrow>
          (let s1 = s\<lparr>delivered := delivered s @ [ls]\<rparr>
           in case removal e of
                Rejects \<Rightarrow> export_failed s1
              | Resolves \<Rightarrow>
                  Alert_alert ''Success'' ''Logs exported and cleared.''
                    (refreshHome (reload e) (s1\<lparr>logs_item := None\<rparr>))))"

text \<open>
  The variant that clears at once on the web and, elsewhere, asks
  "Click yes if you have exported the logs." and clears on Yes only.
\<close>

definition exportLogsFunction_confirm :: "export_run \<Rightarrow> log_entry list \<Rightarrow> state \<Rightarrow> state" where
  "exportLogsFunction_confirm e ls s =
     (case deliver e of
        Rejects \<Rightarrow> export_failed s
      | Resolves \<Rightarrow>
          (let s1 = s\<lparr>delivered := delivered s @ [ls]\<rparr>
           in if os e = Web
              then (case removal e of
                      Rejects \<Rightarrow> export_failed s1
                    | Resolves \<Rightarrow> refreshHome (reload e) (s1\<lparr>logs_item := None\<rparr>))
              else
                (let s2 = Alert_alert ''Delete Logs'' ''Click yes if you have exported the logs.'' s1
                 in case confirm e of
                      No \<Rightarrow> s2
                    | Yes \<Rightarrow>
                        (case removal e of
                           Rejects \<Rightarrow>
                             Alert_alert ''Error'' ''Failed to clear logs.''
                               (console_error ''Error clearing logs:'' s2)
                         | Resolves \<Rightarrow>
                             Alert_alert ''Logs cleared.'' []
                               (refreshHome (reload e) (s2\<lparr>logs_item := None\<rparr>))))))"

definition handleExportLogs :: "export_run \<Rightarrow> state \<Rightarrow> state" where
  "handleExportLogs e s =
     (case loadLogsFromStorage (first_read e) s of (ls, s') \<Rightarrow> exportLogsFunction e ls s')"

definition handleExportLogs_confirm :: "export_run \<Rightarrow> state \<Rightarrow> state" where
  "handleExportLogs_confirm e s =
     (case loadLogsFromStorage (first_read e) s of (ls, s') \<Rightarrow> exportLogsFunction_confirm e ls s')"

section \<open>Configuration\<close>

text \<open>
  \<open>yaml.load\<close> belongs to the js-yaml library; the functions below take it as their
  first argument: a text either parses to a value or makes it throw.

  \<open>loadConfig\<close> runs once at start; \<open>if (storedConfig)\<close> skips an absent and an empty
  text alike. \<open>yamlText\<close> is what the editor of the settings screen holds when the user
  saves; the effect that fills it with \<open>yaml.dump(config)\<close> and the navigation back to
  the home screen are not part of the model.
\<close>

definition loadConfig :: "(js_string \<Rightarrow> js_error + yaml) \<Rightarrow> io \<Rightarrow> state \<Rightarrow> state" where
  "loadConfig yaml_load r s =
     (case r of
        Rejects \<Rightarrow> console_error ''Failed to load configuration'' s
      | Resolves \<Rightarrow>
          (case config_item s of
             None \<Rightarrow> s
           | Some storedConfig \<Rightarrow>
               if storedConfig = [] then s
               else (case yaml_load storedConfig of
                       Inl e \<Rightarrow> console_error ''Failed to load configuration'' s
                     | Inr v \<Rightarrow> s\<lparr>config := v\<rparr>)))"

definition invalid_yaml :: "state \<Rightarrow> state" where
  "invalid_yaml s = Alert_alert ''Error'' ''Invalid YAML configuration.'' s"

text \<open>
  \<open>saveSettings\<close>: \<open>w1\<close> and \<open>w2\<close> are the outcomes of writing the configuration and
  the theme, \<open>r\<close> of the read that refreshes the home screen. Whatever is thrown inside
  the \<open>try\<close> ends in the same alert.
\<close>

definition saveSettings :: "(js_string \<Rightarrow> js_error + yaml) \<Rightarrow> io \<Rightarrow> io \<Rightarrow> io \<Rightarrow> state \<Rightarrow> state" where
  "saveSettings yaml_load w1 w2 r s =
     (case yaml_load (yamlText s) of
        Inl e \<Rightarrow> invalid_yaml s
      | Inr newConfig \<Rightarrow>
          (let s1 = s\<lparr>config := newConfig\<rparr>
           in case w1 of
                Rejects \<Rightarrow> invalid_yaml s1
              | Resolves \<Rightarrow>
                  (let s2 = s1\<lparr>config_item := Some (yamlText s)\<rparr>
                   in case w2 of
                        Rejects \<Rightarrow> invalid_yaml s2
                      | Resolves \<Rightarrow>
                          refreshHome r
                            (s2\<lparr>theme_item := Some (selectedTheme s), theme := selectedTheme s\<rparr>))))"

text \<open>
  The read \<open>config.activities\<close>, with which every variant of the home screen starts to
  draw its buttons: it throws on \<open>undefined\<close> and \<open>null\<close>, gives the value under the
  key in a mapping (whose keys are distinct) and \<open>undefined\<close> in a mapping without the
  key and in every other value.
\<close>

fun config_activities :: "yaml \<Rightarrow> js_error + yaml" where
  "config_activities YUndefined = Inl TypeError"
| "config_activities YNull = Inl TypeError"
| "config_activities (YMap kvs) =
     (case map_of kvs (js ''activities'') of
        None \<Rightarrow> Inr YUndefined
      | Some v \<Rightarrow> Inr v)"
| "config_activities _ = Inr YUndefined"

section \<open>Auxiliary facts\<close>

lemma saveLogsToStorage_fields:
  "logs (saveLogsToStorage w ls s) = logs s"
  "alerts (saveLogsToStorage w ls s) = alerts s"
  "screen_logs (saveLogsToStorage w ls s) = screen_logs s"
  by (cases w; simp add: saveLogsToStorage_def console_error_def)+

lemma split_comma_not_Nil: "split_comma s \<noteq> []"
  by (induction s) (auto split: list.splits)

lemma split_comma_no_comma: "p \<in> set (split_comma s) \<Longrightarrow> comma \<notin> set p"
proof (induction s arbitrary: p)
  case Nil
  then show ?case by simp
next
  case (Cons c cs)
  show ?case
  proof (cases "c = comma")
    case True
    with Cons show ?thesis by auto
  next
    case False
    obtain q qs where q: "split_comma cs = q # qs"
      using split_comma_not_Nil [of cs] by (cases "split_comma cs") auto
    with Cons False show ?thesis by auto
  qed
qed

lemma split_comma_length: "length (split_comma s) = Suc (count_list s comma)"
  by (induction s) (auto split: list.splits simp: split_comma_not_Nil)

lemma dropWhile_hd: "dropWhile P xs \<noteq> [] \<Longrightarrow> \<not> P (hd (dropWhile P xs))"
  using hd_dropWhile by blast

lemma dropWhile_last: "dropWhile P xs \<noteq> [] \<Longrightarrow> last (dropWhile P xs) = last xs"
  by (induction xs) auto

lemma trim_ends:
  assumes "trim s \<noteq> []"
  shows "\<not> strippable (hd (trim s)) \<and> \<not> strippable (last (trim s))"
proof -
  let ?t = "dropWhile strippable s"
  let ?u = "dropWhile strippable (rev ?t)"
  from assms have u: "?u \<noteq> []" by (simp add: trim_def)
  have t: "?t \<noteq> []"
  proof
    assume a: "?t = []"
    from u show False unfolding a by simp
  qed
  have "\<not> strippable (hd ?u)" using u by (rule dropWhile_hd)
  then have l: "\<not> strippable (last (trim s))" using u by (simp add: trim_def last_rev)
  have "last ?u = last (rev ?t)" using u by (rule dropWhile_last)
  also have "\<dots> = hd ?t" using t by (simp add: last_rev)
  finally have "hd (trim s) = hd ?t" using u by (simp add: trim_def hd_rev)
  moreover have "\<not> strippable (hd ?t)" using t by (rule dropWhile_hd)
  ultimately show ?thesis using l by simp
qed

lemma edited_comments_clean:
  assumes "c \<in> set (edited_comments raw)"
  shows "c \<noteq> [] \<and> comma \<notin> set c \<and> \<not> strippable (hd c) \<and> \<not> strippable (last c)"
proof -
  from assms obtain p where p: "p \<in> set (split_comma raw)" and c: "c = trim p" and ne: "c \<noteq> []"
    by (auto simp: edited_comments_def)
  have "set (trim p) \<subseteq> set p"
    by (auto simp: trim_def dest!: set_dropWhileD)
  with split_comma_no_comma [OF p] c have "comma \<notin> set c" by auto
  with trim_ends [of p] c ne show ?thesis by simp
qed




lemma loadLogsFromStorage_None:
  "logs_item s = None \<Longrightarrow> fst (loadLogsFromStorage r s) = []"
  by (cases r; simp add: loadLogsFromStorage_def)

lemma refreshHome_keeps:
  "logs_item (refreshHome r s) = logs_item s"
  "alerts (refreshHome r s) = alerts s"
  "config (refreshHome r s) = config s"
  "config_item (refreshHome r s) = config_item s"
  "logs (refreshHome r s) = fst (loadLogsFromStorage r s)"
  by (cases r; cases "logs_item s";
      simp add: refreshHome_def HomeScreen_reload_def loadLogsFromStorage_def console_error_def
        split: sum.splits prod.splits)+

lemma export_failed_keeps:
  "logs_item (export_failed s) = logs_item s"
  "logs (export_failed s) = logs s"
  "alerts (export_failed s) = alerts s @ [(''Export Error'', ''Failed to export logs.'')]"
  by (simp_all add: export_failed_def Alert_alert_def console_error_def)

lemma exportLogsFunction_sink_fails:
  "exportLogsFunction (e\<lparr>deliver := Rejects\<rparr>) ls s = export_failed s"
  "exportLogsFunction_confirm (e\<lparr>deliver := Rejects\<rparr>) ls s = export_failed s"
  by (simp_all add: exportLogsFunction_def exportLogsFunction_confirm_def)

lemma exportLogsFunction_clears:
  "logs_item (exportLogsFunction (e\<lparr>deliver := Resolves, removal := Resolves\<rparr>) ls s) = None"
  "logs (exportLogsFunction (e\<lparr>deliver := Resolves, removal := Resolves\<rparr>) ls s) = []"
  by (simp_all add: exportLogsFunction_def Let_def Alert_alert_def refreshHome_keeps
      loadLogsFromStorage_None)

lemma exportLogsFunction_confirm_web_clears:
  "logs_item (exportLogsFunction_confirm (e\<lparr>os := Web, deliver := Resolves, removal := Resolves\<rparr>) ls s) = None"
  "logs (exportLogsFunction_confirm (e\<lparr>os := Web, deliver := Resolves, removal := Resolves\<rparr>) ls s) = []"
  by (simp_all add: exportLogsFunction_confirm_def Let_def refreshHome_keeps loadLogsFromStorage_None)

lemma exportLogsFunction_confirm_yes_clears:
  "logs_item (exportLogsFunction_confirm (e\<lparr>deliver := Resolves, removal := Resolves, confirm := Yes\<rparr>) ls s) = None"
  "logs (exportLogsFunction_confirm (e\<lparr>deliver := Resolves, removal := Resolves, confirm := Yes\<rparr>) ls s) = []"
  by (simp_all add: exportLogsFunction_confirm_def Let_def Alert_alert_def refreshHome_keeps
      loadLogsFromStorage_None)

lemma exportLogsFunction_confirm_no_keeps:
  "logs_item (exportLogsFunction_confirm (e\<lparr>os := Android, confirm := No\<rparr>) ls s) = logs_item s"
  "logs (exportLogsFunction_confirm (e\<lparr>os := Android, confirm := No\<rparr>) ls s) = logs s"
  "logs_item (exportLogsFunction_confirm (e\<lparr>os := IOS, confirm := No\<rparr>) ls s) = logs_item s"
  "logs (exportLogsFunction_confirm (e\<lparr>os := IOS, confirm := No\<rparr>) ls s) = logs s"
  by (cases "deliver e";
      simp add: exportLogsFunction_confirm_def Let_def Alert_alert_def export_failed_keeps)+

section \<open>Export (C1)\<close>

text \<open>
  C1, as the code has it. For every collection and every sink: when the delivery to the
  sink fails, the store is not cleared, the stored item and the collection in memory
  are what they were, and "Export Error" is shown. When the delivery and the removal
  succeed, the immediate variant clears the store: the item is removed, the home
  screen holds no entry and the next load is empty. The confirming variant does so on
  the web and, elsewhere, only when the user answers Yes; when the user answers No the
  stored item and the collection in memory are what they were.
\<close>

theorem export_clears_after_delivery_only:
  "logs_item (exportLogsFunction (e\<lparr>deliver := Rejects\<rparr>) ls s) = logs_item s
   \<and> logs (exportLogsFunction (e\<lparr>deliver := Rejects\<rparr>) ls s) = logs s
   \<and> alerts (exportLogsFunction (e\<lparr>deliver := Rejects\<rparr>) ls s)
       = alerts s @ [(''Export Error'', ''Failed to export logs.'')]
   \<and> logs_item (exportLogsFunction_confirm (e\<lparr>deliver := Rejects\<rparr>) ls s) = logs_item s
   \<and> logs (exportLogsFunction_confirm (e\<lparr>deliver := Rejects\<rparr>) ls s) = logs s
   \<and> alerts (exportLogsFunction_confirm (e\<lparr>deliver := Rejects\<rparr>) ls s)
       = alerts s @ [(''Export Error'', ''Failed to export logs.'')]
   \<and> logs_item (exportLogsFunction (e\<lparr>deliver := Resolves, removal := Resolves\<rparr>) ls s) = None
   \<and> logs (exportLogsFunction (e\<lparr>deliver := Resolves, removal := Resolves\<rparr>) ls s) = []
   \<and> fst (loadLogsFromStorage r
        (exportLogsFunction (e\<lparr>deliver := Resolves, removal := Resolves\<rparr>) ls s)) = []
   \<and> logs_item (exportLogsFunction_confirm
        (e\<lparr>os := Web, deliver := Resolves, removal := Resolves\<rparr>) ls s) = None
   \<and> logs (exportLogsFunction_confirm
        (e\<lparr>os := Web, deliver := Resolves, removal := Resolves\<rparr>) ls s) = []
   \<and> logs_item (exportLogsFunction_confirm
        (e\<lparr>deliver := Resolves, removal := Resolves, confirm := Yes\<rparr>) ls s) = None
   \<and> logs (exportLogsFunction_confirm
        (e\<lparr>deliver := Resolves, removal := Resolves, confirm := Yes\<rparr>) ls s) = []
   \<and> fst (loadLogsFromStorage r
        (exportLogsFunction_confirm
          (e\<lparr>deliver := Resolves, removal := Resolves, confirm := Yes\<rparr>) ls s)) = []
   \<and> logs_item (exportLogsFunction_confirm (e\<lparr>os := Android, confirm := No\<rparr>) ls s) = logs_item s
   \<and> logs (exportLogsFunction_confirm (e\<lparr>os := Android, confirm := No\<rparr>) ls s) = logs s
   \<and> logs_item (exportLogsFunction_confirm (e\<lparr>os := IOS, confirm := No\<rparr>) ls s) = logs_item s
   \<and> logs (exportLogsFunction_confirm (e\<lparr>os := IOS, confirm := No\<rparr>) ls s) = logs s"
  by (simp add: exportLogsFunction_sink_fails export_failed_keeps exportLogsFunction_clears
      exportLogsFunction_confirm_web_clears exportLogsFunction_confirm_yes_clears
      exportLogsFunction_confirm_no_keeps loadLogsFromStorage_None)

text \<open>
  C1 as stated fails in the confirming variant: on Android the payload is delivered, no
  error is raised, the user answers No, and the store still holds the entry.
\<close>

theorem export_declined_counterexample:
  "logs_item (handleExportLogs_confirm
       \<lparr> os = Android, first_read = Resolves, deliver = Resolves, removal = Resolves,
         confirm = No, reload = Resolves \<rparr>
       (App_init (Some (Json [\<lparr> activity = js ''Work'', timestamp = 1, comments = Some [] \<rparr>])) None None))
     = Some (Json [\<lparr> activity = js ''Work'', timestamp = 1, comments = Some [] \<rparr>])
   \<and> delivered (handleExportLogs_confirm
       \<lparr> os = Android, first_read = Resolves, deliver = Resolves, removal = Resolves,
         confirm = No, reload = Resolves \<rparr>
       (App_init (Some (Json [\<lparr> activity = js ''Work'', timestamp = 1, comments = Some [] \<rparr>])) None None))
     = [[\<lparr> activity = js ''Work'', timestamp = 1, comments = Some [] \<rparr>]]
   \<and> alerts (handleExportLogs_confirm
       \<lparr> os = Android, first_read = Resolves, deliver = Resolves, removal = Resolves,
         confirm = No, reload = Resolves \<rparr>
       (App_init (Some (Json [\<lparr> activity = js ''Work'', timestamp = 1, comments = Some [] \<rparr>])) None None))
     = [(''Delete Logs'', ''Click yes if you have exported the logs.'')]
   \<and> console (handleExportLogs_confirm
       \<lparr> os = Android, first_read = Resolves, deliver = Resolves, removal = Resolves,
         confirm = No, reload = Resolves \<rparr>
       (App_init (Some (Json [\<lparr> activity = js ''Work'', timestamp = 1, comments = Some [] \<rparr>])) None None))
     = []
   \<and> fst (loadLogsFromStorage Resolves (handleExportLogs_confirm
       \<lparr> os = Android, first_read = Resolves, deliver = Resolves, removal = Resolves,
         confirm = No, reload = Resolves \<rparr>
       (App_init (Some (Json [\<lparr> activity = js ''Work'', timestamp = 1, comments = Some [] \<rparr>])) None None)))
     \<noteq> []"
  by (simp add: handleExportLogs_confirm_def exportLogsFunction_confirm_def loadLogsFromStorage_def
      App_init_def Let_def Alert_alert_def)

section \<open>Editing (C2, C4)\<close>

text \<open>
  C2. For a collection of length \<open>n\<close> and a displayed index \<open>d < n\<close>, opening the
  editor at the displayed (newest-first) position \<open>d\<close> selects the stored position
  \<open>n - 1 - d\<close>, which holds the entry displayed at \<open>d\<close>; the displayed index 0 selects
  the entry created last.
\<close>

theorem openEditModal_targets_stored_index:
  assumes "d < length (screen_logs s)"
  shows "currentEditingIndex (openEditModal (int d) (displayed s ! d) s)
           = Some (int (length (screen_logs s)) - 1 - int d)
         \<and> 0 \<le> int (length (screen_logs s)) - 1 - int d
         \<and> int (length (screen_logs s)) - 1 - int d < int (length (screen_logs s))
         \<and> screen_logs s ! nat (int (length (screen_logs s)) - 1 - int d) = displayed s ! d
         \<and> currentEditingIndex (openEditModal 0 (displayed s ! 0) s)
             = Some (int (length (screen_logs s)) - 1)
         \<and> screen_logs s ! nat (int (length (screen_logs s)) - 1) = last (screen_logs s)"
proof -
  let ?n = "length (screen_logs s)"
  have n: "screen_logs s \<noteq> []" using assms by auto
  have "nat (int ?n - 1 - int d) = ?n - Suc d" using assms by simp
  moreover have "rev (screen_logs s) ! d = screen_logs s ! (?n - Suc d)"
    using assms by (simp add: rev_nth)
  moreover have "nat (int ?n - 1) = ?n - 1" by simp
  moreover have "screen_logs s ! (?n - 1) = last (screen_logs s)"
    using n by (simp add: last_conv_nth)
  ultimately show ?thesis using assms
    by (simp add: openEditModal_def displayed_def Let_def)
qed

theorem openEditModal_targets_stored_index_witness:
  "(0::nat) < length (screen_logs (LogsScreen_focus Resolves
       (recordActivities [(Resolves, 1, js ''Work''), (Resolves, 2, js ''Break''), (Resolves, 3, js ''Exercise'')]
          (App_init None None None))))
   \<and> currentEditingIndex (openEditModal 0
        \<lparr> activity = js ''Exercise'', timestamp = 3, comments = Some [] \<rparr>
        (LogsScreen_focus Resolves
          (recordActivities [(Resolves, 1, js ''Work''), (Resolves, 2, js ''Break''), (Resolves, 3, js ''Exercise'')]
             (App_init None None None)))) = Some 2
   \<and> displayed (LogsScreen_focus Resolves
          (recordActivities [(Resolves, 1, js ''Work''), (Resolves, 2, js ''Break''), (Resolves, 3, js ''Exercise'')]
             (App_init None None None))) ! 0
       = \<lparr> activity = js ''Exercise'', timestamp = 3, comments = Some [] \<rparr>"
  using openEditModal_targets_stored_index [of 0 "LogsScreen_focus Resolves
       (recordActivities [(Resolves, 1, js ''Work''), (Resolves, 2, js ''Break''), (Resolves, 3, js ''Exercise'')]
          (App_init None None None))"]
  by (simp add: LogsScreen_focus_def recordActivity_def App_init_def loadLogsFromStorage_def
      saveLogsToStorage_def JSON_stringify_def Let_def displayed_def openEditModal_def)

text \<open>
  C4, as the code has it. Saving an edit replaces the activity of the selected entry by
  the edited text as typed (it is not trimmed) and its comments by the pieces of the raw
  text between commas, each trimmed, the empty ones dropped: no piece kept is empty,
  contains a comma, or starts or ends with white space. The timestamp of the entry and
  every other entry stay as they are.
\<close>

theorem saveEditedLog_replaces_entry:
  assumes "currentEditingIndex s = Some (int i)" and "i < length (screen_logs s)"
  shows "(case saveEditedLog w s of
            Inl err \<Rightarrow> False
          | Inr s' \<Rightarrow>
              screen_logs s' = (screen_logs s)
                [i := (screen_logs s ! i)
                   \<lparr>activity := editedActivity s,
                    comments := Some (filter (\<lambda>c. c \<noteq> []) (map trim (split_comma (editedComments s))))\<rparr>]
              \<and> timestamp (screen_logs s' ! i) = timestamp (screen_logs s ! i)
              \<and> length (screen_logs s') = length (screen_logs s)
              \<and> (\<forall>j < length (screen_logs s). j \<noteq> i \<longrightarrow> screen_logs s' ! j = screen_logs s ! j)
              \<and> (\<forall>c \<in> set (edited_comments (editedComments s)).
                    c \<noteq> [] \<and> comma \<notin> set c \<and> \<not> strippable (hd c) \<and> \<not> strippable (last c)))"
  using assms edited_comments_clean [of _ "editedComments s"]
  by (simp add: saveEditedLog_def Let_def saveLogsToStorage_fields edited_comments_def [symmetric])

text \<open>
  The scenario of the specification: on a log of three entries, editing the entry
  displayed first with "Gym" and "warmup, cardio, stretch" changes the entry created last.
\<close>

theorem saveEditedLog_replaces_entry_witness:
  "(case saveEditedLog Resolves
      ((openEditModal 0 \<lparr> activity = js ''Exercise'', timestamp = 3, comments = Some [] \<rparr>
         (LogsScreen_focus Resolves
           (recordActivities [(Resolves, 1, js ''Work''), (Resolves, 2, js ''Break''), (Resolves, 3, js ''Exercise'')]
             (App_init None None None))))
       \<lparr>editedActivity := js ''Gym'', editedComments := js ''warmup, cardio, stretch''\<rparr>) of
      Inl err \<Rightarrow> False
    | Inr s' \<Rightarrow>
        screen_logs s' =
          [\<lparr> activity = js ''Work'', timestamp = 1, comments = Some [] \<rparr>,
           \<lparr> activity = js ''Break'', timestamp = 2, comments = Some [] \<rparr>,
           \<lparr> activity = js ''Gym'', timestamp = 3,
             comments = Some [js ''warmup'', js ''cardio'', js ''stretch''] \<rparr>]
        \<and> logs_item s' = Some (Json (screen_logs s')))"
proof -
  let ?s = "(openEditModal 0 \<lparr> activity = js ''Exercise'', timestamp = 3, comments = Some [] \<rparr>
         (LogsScreen_focus Resolves
           (recordActivities [(Resolves, 1, js ''Work''), (Resolves, 2, js ''Break''), (Resolves, 3, js ''Exercise'')]
             (App_init None None None))))
       \<lparr>editedActivity := js ''Gym'', editedComments := js ''warmup, cardio, stretch''\<rparr>"
  have h1: "currentEditingIndex ?s = Some (int 2)"
    by (simp add: LogsScreen_focus_def recordActivity_def App_init_def loadLogsFromStorage_def
      saveLogsToStorage_def JSON_stringify_def Let_def openEditModal_def)
  have h2: "2 < length (screen_logs ?s)"
    by (simp add: LogsScreen_focus_def recordActivity_def App_init_def loadLogsFromStorage_def
      saveLogsToStorage_def JSON_stringify_def Let_def openEditModal_def)
  show ?thesis
    using saveEditedLog_replaces_entry [OF h1 h2, of Resolves]
    by (simp add: saveEditedLog_def LogsScreen_focus_def recordActivity_def App_init_def
        loadLogsFromStorage_def saveLogsToStorage_def JSON_stringify_def Let_def openEditModal_def
        edited_comments_def js_def comma_def trim_def strippable_def isWhiteSpace_def
        isLineTerminator_def)
qed

text \<open>
  C4 as stated fails: the activity typed with surrounding blanks is stored with them.
\<close>

theorem saveEditedLog_activity_untrimmed_counterexample:
  "(case saveEditedLog Resolves
      ((App_init None None None)
         \<lparr>screen_logs := [\<lparr> activity = js ''Work'', timestamp = 1, comments = Some [] \<rparr>],
          currentEditingIndex := Some 0,
          editedActivity := js '' Gym '', editedComments := []\<rparr>) of
      Inl err \<Rightarrow> False
    | Inr s' \<Rightarrow> activity (screen_logs s' ! 0) = js '' Gym ''
               \<and> trim (js '' Gym '') = js ''Gym''
               \<and> activity (screen_logs s' ! 0) \<noteq> trim (js '' Gym ''))"
  by (simp add: saveEditedLog_def Let_def App_init_def saveLogsToStorage_def js_def trim_def
      strippable_def isWhiteSpace_def isLineTerminator_def)

section \<open>Comments and records (C3, C5)\<close>

text \<open>
  C3. With no entry in the collection, adding a comment does nothing but raise the alert
  "No logs available / Please log an activity first.": the collection in memory and the
  stored item stay as they are and nothing is written, whatever the comment text.
\<close>

theorem addComment_no_logs:
  assumes "logs s = []"
  shows "addComment w s = Alert_alert ''No logs available'' ''Please log an activity first.'' s
         \<and> logs (addComment w s) = logs s
         \<and> logs_item (addComment w s) = logs_item s
         \<and> console (addComment w s) = console s"
  using assms by (simp add: addComment_def Alert_alert_def)

theorem addComment_no_logs_witness:
  "logs (App_init None None None) = []
   \<and> alerts (addComment Resolves ((App_init None None None)\<lparr>commentText := js ''hello''\<rparr>))
       = [(''No logs available'', ''Please log an activity first.'')]
   \<and> logs_item (addComment Resolves ((App_init None None None)\<lparr>commentText := js ''hello''\<rparr>)) = None"
  using addComment_no_logs [of "(App_init None None None)\<lparr>commentText := js ''hello''\<rparr>" Resolves]
  by (simp add: App_init_def Alert_alert_def)

text \<open>
  C5, as the code has it. Recording an activity never fails on the label: for every
  label, the blank ones too, it appends an entry with that label unchanged, the reading
  of the clock and no comments, and raises no alert.
\<close>

theorem recordActivity_creates_entry:
  "logs (recordActivity w now act s) = logs s @ [\<lparr> activity = act, timestamp = now, comments = Some [] \<rparr>]
   \<and> alerts (recordActivity w now act s) = alerts s"
  by (simp add: recordActivity_def Let_def saveLogsToStorage_fields)

text \<open>
  C5 as stated fails: a label that is empty after trimming is recorded like any other.
\<close>

theorem recordActivity_blank_label_counterexample:
  "trim (js ''  '') = []
   \<and> logs (recordActivity Resolves 0 (js ''  '') (App_init None None None))
       = [\<lparr> activity = js ''  '', timestamp = 0, comments = Some [] \<rparr>]
   \<and> logs_item (recordActivity Resolves 0 (js ''  '') (App_init None None None))
       = Some (Json [\<lparr> activity = js ''  '', timestamp = 0, comments = Some [] \<rparr>])
   \<and> alerts (recordActivity Resolves 0 (js ''  '') (App_init None None None)) = []"
  by (simp add: recordActivity_def Let_def saveLogsToStorage_def App_init_def trim_def js_def
      strippable_def isWhiteSpace_def JSON_stringify_def)

section \<open>Loading and writing (C6, C7)\<close>

text \<open>
  C6. Loading returns no entries when nothing is stored; when the stored text does not
  parse, \<open>JSON.parse\<close> fails, the failure is logged and loading recovers with no
  entries; the same when the read is rejected. The result is always either the whole
  stored collection or empty, and loading never changes what is stored.
\<close>

theorem loadLogsFromStorage_all_or_nothing:
  "loadLogsFromStorage Resolves (s\<lparr>logs_item := None\<rparr>) = ([], s\<lparr>logs_item := None\<rparr>)
   \<and> JSON_parse Unparsable = Inl SyntaxError
   \<and> loadLogsFromStorage Resolves (s\<lparr>logs_item := Some Unparsable\<rparr>)
       = ([], console_error ''Error reading logs:'' (s\<lparr>logs_item := Some Unparsable\<rparr>))
   \<and> loadLogsFromStorage Resolves (s\<lparr>logs_item := Some (Json v)\<rparr>) = (v, s\<lparr>logs_item := Some (Json v)\<rparr>)
   \<and> loadLogsFromStorage Rejects s = ([], console_error ''Error reading logs:'' s)
   \<and> (fst (loadLogsFromStorage r s) = [] \<or> logs_item s = Some (Json (fst (loadLogsFromStorage r s))))
   \<and> logs_item (snd (loadLogsFromStorage r s)) = logs_item s"
  apply (intro conjI)
  apply (simp_all add: loadLogsFromStorage_def)
   apply (cases r; cases "logs_item s"; simp add: console_error_def split: sum.splits stored_text.splits)
  subgoal for x by (cases x; simp)
  apply (cases r; cases "logs_item s"; simp add: console_error_def split: sum.splits stored_text.splits)
  done

text \<open>
  C7, as the code has it. When the write fails in recording an activity, adding a
  comment or saving an edit, the failure is written to the console and no alert is
  raised; the stored item is what it was, and the collection in memory is the changed
  one, the same as after a write that succeeds. Recording writes in every state; adding
  a comment writes when there is an entry, saving an edit when the selected index has
  one.
\<close>

theorem write_failure_logged_mutation_kept:
  "logs_item (recordActivity Rejects now act s) = logs_item s
   \<and> alerts (recordActivity Rejects now act s) = alerts s
   \<and> console (recordActivity Rejects now act s) = console s @ [''Error saving logs:'']
   \<and> logs (recordActivity Rejects now act s)
       = logs s @ [\<lparr> activity = act, timestamp = now, comments = Some [] \<rparr>]
   \<and> logs (recordActivity Rejects now act s) = logs (recordActivity Resolves now act s)
   \<and> (logs s \<noteq> [] \<longrightarrow>
         logs_item (addComment Rejects s) = logs_item s
         \<and> alerts (addComment Rejects s) = alerts s
         \<and> console (addComment Rejects s) = console s @ [''Error saving logs:'']
         \<and> logs (addComment Rejects s) = logs (addComment Resolves s)
         \<and> logs (addComment Rejects s)
             = (logs s)[length (logs s) - 1 := (last (logs s))
                 \<lparr>comments := Some ((case comments (last (logs s)) of None \<Rightarrow> [] | Some cs \<Rightarrow> cs)
                                     @ [commentText s])\<rparr>]
         \<and> comments (last (logs (addComment Rejects s)))
             = Some ((case comments (last (logs s)) of None \<Rightarrow> [] | Some cs \<Rightarrow> cs) @ [commentText s]))
   \<and> (currentEditingIndex s = Some (int i) \<and> i < length (screen_logs s) \<longrightarrow>
         (case saveEditedLog Rejects s of
            Inl err \<Rightarrow> False
          | Inr s' \<Rightarrow>
              logs_item s' = logs_item s \<and> alerts s' = alerts s
              \<and> console s' = console s @ [''Error saving logs:'']
              \<and> saveEditedLog Resolves s
                  = Inr (s'\<lparr>logs_item := Some (Json (screen_logs s')), console := console s\<rparr>)
              \<and> screen_logs s' = (screen_logs s)
                  [i := (screen_logs s ! i)
                     \<lparr>activity := editedActivity s,
                      comments := Some (edited_comments (editedComments s))\<rparr>]
              \<and> activity (screen_logs s' ! i) = editedActivity s))"
proof -
  have r: "logs_item (recordActivity Rejects now act s) = logs_item s
         \<and> alerts (recordActivity Rejects now act s) = alerts s
         \<and> console (recordActivity Rejects now act s) = console s @ [''Error saving logs:'']
         \<and> logs (recordActivity Rejects now act s)
             = logs s @ [\<lparr> activity = act, timestamp = now, comments = Some [] \<rparr>]
         \<and> logs (recordActivity Rejects now act s) = logs (recordActivity Resolves now act s)"
    by (simp add: recordActivity_def Let_def saveLogsToStorage_def console_error_def)
  have a: "logs s \<noteq> [] \<longrightarrow>
         logs_item (addComment Rejects s) = logs_item s
         \<and> alerts (addComment Rejects s) = alerts s
         \<and> console (addComment Rejects s) = console s @ [''Error saving logs:'']
         \<and> logs (addComment Rejects s) = logs (addComment Resolves s)
         \<and> logs (addComment Rejects s)
             = (logs s)[length (logs s) - 1 := (last (logs s))
                 \<lparr>comments := Some ((case comments (last (logs s)) of None \<Rightarrow> [] | Some cs \<Rightarrow> cs)
                                     @ [commentText s])\<rparr>]
         \<and> comments (last (logs (addComment Rejects s)))
             = Some ((case comments (last (logs s)) of None \<Rightarrow> [] | Some cs \<Rightarrow> cs) @ [commentText s])"
    by (simp add: addComment_def Let_def saveLogsToStorage_def console_error_def last_conv_nth)
  have e: "currentEditingIndex s = Some (int i) \<and> i < length (screen_logs s) \<longrightarrow>
         (case saveEditedLog Rejects s of
            Inl err \<Rightarrow> False
          | Inr s' \<Rightarrow>
              logs_item s' = logs_item s \<and> alerts s' = alerts s
              \<and> console s' = console s @ [''Error saving logs:'']
              \<and> saveEditedLog Resolves s
                  = Inr (s'\<lparr>logs_item := Some (Json (screen_logs s')), console := console s\<rparr>)
              \<and> screen_logs s' = (screen_logs s)
                  [i := (screen_logs s ! i)
                     \<lparr>activity := editedActivity s,
                      comments := Some (edited_comments (editedComments s))\<rparr>]
              \<and> activity (screen_logs s' ! i) = editedActivity s)"
    by (simp add: saveEditedLog_def Let_def saveLogsToStorage_def console_error_def JSON_stringify_def)
  from r a e show ?thesis by blast
qed

theorem write_failure_logged_mutation_kept_witness:
  "logs ((App_init None None None)
      \<lparr>logs := [\<lparr> activity = js ''Work'', timestamp = 1, comments = Some [] \<rparr>],
       screen_logs := [\<lparr> activity = js ''Work'', timestamp = 1, comments = Some [] \<rparr>],
       commentText := js ''note'', currentEditingIndex := Some 0, editedActivity := js ''Gym''\<rparr>) \<noteq> []
   \<and> logs (addComment Rejects ((App_init None None None)
      \<lparr>logs := [\<lparr> activity = js ''Work'', timestamp = 1, comments = Some [] \<rparr>],
       screen_logs := [\<lparr> activity = js ''Work'', timestamp = 1, comments = Some [] \<rparr>],
       commentText := js ''note'', currentEditingIndex := Some 0, editedActivity := js ''Gym''\<rparr>))
     = [\<lparr> activity = js ''Work'', timestamp = 1, comments = Some [js ''note''] \<rparr>]
   \<and> logs_item (addComment Rejects ((App_init None None None)
      \<lparr>logs := [\<lparr> activity = js ''Work'', timestamp = 1, comments = Some [] \<rparr>],
       screen_logs := [\<lparr> activity = js ''Work'', timestamp = 1, comments = Some [] \<rparr>],
       commentText := js ''note'', currentEditingIndex := Some 0, editedActivity := js ''Gym''\<rparr>)) = None
   \<and> (case saveEditedLog Rejects ((App_init None None None)
      \<lparr>logs := [\<lparr> activity = js ''Work'', timestamp = 1, comments = Some [] \<rparr>],
       screen_logs := [\<lparr> activity = js ''Work'', timestamp = 1, comments = Some [] \<rparr>],
       commentText := js ''note'', currentEditingIndex := Some 0, editedActivity := js ''Gym''\<rparr>) of
        Inl err \<Rightarrow> False
      | Inr s' \<Rightarrow> logs_item s' = None
          \<and> screen_logs s' = [\<lparr> activity = js ''Gym'', timestamp = 1, comments = Some [] \<rparr>])"
proof -
  let ?s = "(App_init None None None)
      \<lparr>logs := [\<lparr> activity = js ''Work'', timestamp = 1, comments = Some [] \<rparr>],
       screen_logs := [\<lparr> activity = js ''Work'', timestamp = 1, comments = Some [] \<rparr>],
       commentText := js ''note'', currentEditingIndex := Some 0, editedActivity := js ''Gym''\<rparr>"
  have h1: "logs ?s \<noteq> []" by simp
  have h2: "currentEditingIndex ?s = Some (int 0) \<and> 0 < length (screen_logs ?s)" by simp
  show ?thesis
    using h1 h2 write_failure_logged_mutation_kept [of 0 "[]" ?s 0]
    by (simp add: App_init_def addComment_def saveEditedLog_def Let_def saveLogsToStorage_def
        console_error_def edited_comments_def trim_def)
qed

text \<open>
  C7 as stated fails: after a rejected write the new entry is in the collection in
  memory, nothing is stored, and no alert tells the user.
\<close>

theorem write_failure_counterexample:
  "logs (recordActivity Rejects 1 (js ''Work'') (App_init None None None))
     = [\<lparr> activity = js ''Work'', timestamp = 1, comments = Some [] \<rparr>]
   \<and> logs (recordActivity Rejects 1 (js ''Work'') (App_init None None None)) \<noteq> logs (App_init None None None)
   \<and> logs_item (recordActivity Rejects 1 (js ''Work'') (App_init None None None)) = None
   \<and> alerts (recordActivity Rejects 1 (js ''Work'') (App_init None None None)) = []
   \<and> console (recordActivity Rejects 1 (js ''Work'') (App_init None None None)) = [''Error saving logs:'']"
  by (simp add: recordActivity_def Let_def saveLogsToStorage_def console_error_def App_init_def)

section \<open>Configuration (C9)\<close>

text \<open>
  C9, as the code has it. With no stored text the configuration is the built-in default
  of Work, Break and Exercise. A text that fails to parse leaves the active
  configuration as it is: at start the failure is logged on the console and nothing
  else changes (a rejected read is logged the same way, and an empty stored text is
  skipped like an absent one), on saving the alert "Invalid YAML configuration." is
  raised and nothing is stored. A text that parses is accepted whatever it parses to:
  the value becomes the active configuration and the text is stored, with no check for
  a list of activities.
\<close>

theorem config_default_and_parse_failure:
  "config (App_init li None ti) = DEFAULT_CONFIG
   \<and> config (loadConfig yaml_load r (App_init li None ti)) = DEFAULT_CONFIG
   \<and> loadConfig yaml_load Resolves (s\<lparr>config_item := None\<rparr>) = s\<lparr>config_item := None\<rparr>
   \<and> loadConfig yaml_load Resolves (s\<lparr>config_item := Some []\<rparr>) = s\<lparr>config_item := Some []\<rparr>
   \<and> loadConfig yaml_load Rejects s = console_error ''Failed to load configuration'' s
   \<and> (yaml_load bad = Inl err \<longrightarrow>
         config (loadConfig yaml_load r (s\<lparr>config_item := Some bad\<rparr>)) = config s
         \<and> saveSettings yaml_load w1 w2 r (s\<lparr>yamlText := bad\<rparr>)
             = Alert_alert ''Error'' ''Invalid YAML configuration.'' (s\<lparr>yamlText := bad\<rparr>))
   \<and> (yaml_load bad = Inl err \<and> bad \<noteq> [] \<longrightarrow>
         loadConfig yaml_load Resolves (s\<lparr>config_item := Some bad\<rparr>)
           = console_error ''Failed to load configuration'' (s\<lparr>config_item := Some bad\<rparr>))
   \<and> (yaml_load good = Inr v \<longrightarrow>
         config (saveSettings yaml_load w1 w2 r (s\<lparr>yamlText := good\<rparr>)) = v
         \<and> config_item (saveSettings yaml_load Resolves w2 r (s\<lparr>yamlText := good\<rparr>)) = Some good
         \<and> alerts (saveSettings yaml_load Resolves Resolves r (s\<lparr>yamlText := good\<rparr>)) = alerts s)
   \<and> (yaml_load good = Inr v \<and> good \<noteq> [] \<longrightarrow>
         loadConfig yaml_load Resolves (s\<lparr>config_item := Some good\<rparr>)
           = s\<lparr>config_item := Some good, config := v\<rparr>)"
proof -
  have d: "config (App_init li None ti) = DEFAULT_CONFIG
         \<and> config (loadConfig yaml_load r (App_init li None ti)) = DEFAULT_CONFIG"
    by (cases r) (simp_all add: App_init_def loadConfig_def console_error_def)
  have n: "loadConfig yaml_load Resolves (s\<lparr>config_item := None\<rparr>) = s\<lparr>config_item := None\<rparr>
         \<and> loadConfig yaml_load Resolves (s\<lparr>config_item := Some []\<rparr>) = s\<lparr>config_item := Some []\<rparr>
         \<and> loadConfig yaml_load Rejects s = console_error ''Failed to load configuration'' s"
    by (simp add: loadConfig_def)
  have b1: "yaml_load bad = Inl err \<longrightarrow>
         config (loadConfig yaml_load r (s\<lparr>config_item := Some bad\<rparr>)) = config s"
    by (cases r) (simp_all add: loadConfig_def console_error_def)
  have b2: "yaml_load bad = Inl err \<longrightarrow>
         saveSettings yaml_load w1 w2 r (s\<lparr>yamlText := bad\<rparr>)
             = Alert_alert ''Error'' ''Invalid YAML configuration.'' (s\<lparr>yamlText := bad\<rparr>)"
    by (simp add: saveSettings_def invalid_yaml_def)
  have b3: "yaml_load bad = Inl err \<and> bad \<noteq> [] \<longrightarrow>
         loadConfig yaml_load Resolves (s\<lparr>config_item := Some bad\<rparr>)
           = console_error ''Failed to load configuration'' (s\<lparr>config_item := Some bad\<rparr>)"
    by (simp add: loadConfig_def)
  have g1: "yaml_load good = Inr v \<and> good \<noteq> [] \<longrightarrow>
         loadConfig yaml_load Resolves (s\<lparr>config_item := Some good\<rparr>)
           = s\<lparr>config_item := Some good, config := v\<rparr>"
    by (simp add: loadConfig_def)
  have g2: "yaml_load good = Inr v \<longrightarrow>
         config (saveSettings yaml_load w1 w2 r (s\<lparr>yamlText := good\<rparr>)) = v"
    by (cases w1; cases w2)
       (simp_all add: saveSettings_def invalid_yaml_def Alert_alert_def Let_def refreshHome_keeps)
  have g3: "yaml_load good = Inr v \<longrightarrow>
         config_item (saveSettings yaml_load Resolves w2 r (s\<lparr>yamlText := good\<rparr>)) = Some good"
    by (cases w2)
       (simp_all add: saveSettings_def invalid_yaml_def Alert_alert_def Let_def refreshHome_keeps)
  have g4: "yaml_load good = Inr v \<longrightarrow>
         alerts (saveSettings yaml_load Resolves Resolves r (s\<lparr>yamlText := good\<rparr>)) = alerts s"
    by (simp add: saveSettings_def Let_def refreshHome_keeps)
  from d n b1 b2 b3 g1 g2 g3 g4 show ?thesis by blast
qed

theorem config_default_and_parse_failure_witness:
  "(\<lambda>t. if t = js ''activities: [Gym]'' then Inr (YMap [(js ''activities'', YSeq [YStr (js ''Gym'')])])
         else Inl YAMLException) (js ''activities: ['') = Inl YAMLException
   \<and> js ''activities: ['' \<noteq> []
   \<and> js ''activities: [Gym]'' \<noteq> []
   \<and> config (loadConfig
        (\<lambda>t. if t = js ''activities: [Gym]'' then Inr (YMap [(js ''activities'', YSeq [YStr (js ''Gym'')])])
              else Inl YAMLException)
        Resolves (App_init None None None)) = DEFAULT_CONFIG
   \<and> console (loadConfig
        (\<lambda>t. if t = js ''activities: [Gym]'' then Inr (YMap [(js ''activities'', YSeq [YStr (js ''Gym'')])])
              else Inl YAMLException)
        Resolves ((App_init None None None)\<lparr>config_item := Some (js ''activities: ['')\<rparr>))
       = [''Failed to load configuration'']
   \<and> config (loadConfig
        (\<lambda>t. if t = js ''activities: [Gym]'' then Inr (YMap [(js ''activities'', YSeq [YStr (js ''Gym'')])])
              else Inl YAMLException)
        Resolves ((App_init None None None)\<lparr>config_item := Some (js ''activities: ['')\<rparr>))
       = DEFAULT_CONFIG
   \<and> config (loadConfig
        (\<lambda>t. if t = js ''activities: [Gym]'' then Inr (YMap [(js ''activities'', YSeq [YStr (js ''Gym'')])])
              else Inl YAMLException)
        Resolves ((App_init None None None)\<lparr>config_item := Some (js ''activities: [Gym]'')\<rparr>))
       = YMap [(js ''activities'', YSeq [YStr (js ''Gym'')])]
   \<and> config (saveSettings
        (\<lambda>t. if t = js ''activities: [Gym]'' then Inr (YMap [(js ''activities'', YSeq [YStr (js ''Gym'')])])
              else Inl YAMLException)
        Resolves Resolves Resolves ((App_init None None None)\<lparr>yamlText := js ''activities: [''\<rparr>))
       = DEFAULT_CONFIG
   \<and> alerts (saveSettings
        (\<lambda>t. if t = js ''activities: [Gym]'' then Inr (YMap [(js ''activities'', YSeq [YStr (js ''Gym'')])])
              else Inl YAMLException)
        Resolves Resolves Resolves ((App_init None None None)\<lparr>yamlText := js ''activities: [''\<rparr>))
       = [(''Error'', ''Invalid YAML configuration.'')]
   \<and> config (saveSettings
        (\<lambda>t. if t = js ''activities: [Gym]'' then Inr (YMap [(js ''activities'', YSeq [YStr (js ''Gym'')])])
              else Inl YAMLException)
        Resolves Resolves Resolves ((App_init None None None)\<lparr>yamlText := js ''activities: [Gym]''\<rparr>))
       = YMap [(js ''activities'', YSeq [YStr (js ''Gym'')])]"
proof -
  let ?yl = "\<lambda>t. if t = js ''activities: [Gym]''
                  then Inr (YMap [(js ''activities'', YSeq [YStr (js ''Gym'')])])
                  else Inl YAMLException"
  have h1: "?yl (js ''activities: ['') = Inl YAMLException \<and> js ''activities: ['' \<noteq> []"
    by (simp add: js_def)
  have h2: "?yl (js ''activities: [Gym]'') = Inr (YMap [(js ''activities'', YSeq [YStr (js ''Gym'')])])
            \<and> js ''activities: [Gym]'' \<noteq> []"
    by (simp add: js_def)
  show ?thesis
    using h1 h2
      config_default_and_parse_failure [where yaml_load = ?yl and bad = "js ''activities: [''"
        and good = "js ''activities: [Gym]''" and err = YAMLException
        and v = "YMap [(js ''activities'', YSeq [YStr (js ''Gym'')])]"
        and s = "App_init None None None" and li = None and ti = None
        and r = Resolves and ?w1.0 = Resolves and ?w2.0 = Resolves]
    by (simp add: Alert_alert_def App_init_def js_def console_error_def)
qed

text \<open>
  C9 as stated fails: the text \<open>foo: bar\<close> parses to a mapping in which
  \<open>config.activities\<close> is \<open>undefined\<close>; saving it raises no alert, makes it the active
  configuration and stores it.
\<close>

theorem config_without_activities_counterexample:
  "config_activities (YMap [(js ''foo'', YStr (js ''bar''))]) = Inr YUndefined
   \<and> config (saveSettings
        (\<lambda>t. if t = js ''foo: bar'' then Inr (YMap [(js ''foo'', YStr (js ''bar''))]) else Inl YAMLException)
        Resolves Resolves Resolves ((App_init None None None)\<lparr>yamlText := js ''foo: bar''\<rparr>))
       = YMap [(js ''foo'', YStr (js ''bar''))]
   \<and> config_item (saveSettings
        (\<lambda>t. if t = js ''foo: bar'' then Inr (YMap [(js ''foo'', YStr (js ''bar''))]) else Inl YAMLException)
        Resolves Resolves Resolves ((App_init None None None)\<lparr>yamlText := js ''foo: bar''\<rparr>))
       = Some (js ''foo: bar'')
   \<and> alerts (saveSettings
        (\<lambda>t. if t = js ''foo: bar'' then Inr (YMap [(js ''foo'', YStr (js ''bar''))]) else Inl YAMLException)
        Resolves Resolves Resolves ((App_init None None None)\<lparr>yamlText := js ''foo: bar''\<rparr>))
       = []"
  by (simp add: saveSettings_def Let_def App_init_def refreshHome_def HomeScreen_reload_def
      loadLogsFromStorage_def js_def)

section \<open>Order of the records (C10)\<close>




end
